theory Spec2Isabelle
  imports Main
begin

section \<open>Data model\<close>

text \<open>
  The two controllers of the repository are
  \<^verbatim>\<open>MyResourceReconciler\<close> (the controller template) and
  \<^verbatim>\<open>GuestbookReconciler\<close> (internal/controller/guestbook_controller.go).
  Both work on a Kubernetes object fetched from the API server, change it in memory and
  write it back through one of two write paths. The Go types of the objects
  (\<^verbatim>\<open>myv1.MyResource\<close>, \<^verbatim>\<open>webappv1.Guestbook\<close>) are declared in api packages
  that are not part of the sources; the fields the controllers read and write are kept
  under their Go names, the embedded \<^verbatim>\<open>ObjectMeta\<close> and the \<^verbatim>\<open>Status\<close> struct are
  flattened (\<^verbatim>\<open>resource.Status.Conditions\<close> is \<open>Status_Conditions\<close>), and the
  user-supplied spec is a type parameter.
\<close>

type_synonym Time = nat
  \<comment> \<open>\<^verbatim>\<open>metav1.Time\<close>; the zero time is \<open>0\<close>\<close>

type_synonym Duration = int
  \<comment> \<open>\<^verbatim>\<open>time.Duration\<close>, in nanoseconds\<close>

definition Second :: Duration where
  "Second = 1000000000"

definition Minute :: Duration where
  "Minute = 60 * Second"

datatype ConditionStatus = ConditionTrue | ConditionFalse | ConditionUnknown

record Condition =
  Type :: string
  Status :: ConditionStatus
  ObservedGeneration :: int
  LastTransitionTime :: Time
  Reason :: string
  Message :: string

type_synonym NamespacedName = "string \<times> string"

record 'spec Resource =
  Namespace :: string
  Name :: string
  Generation :: int
  DeletionTimestamp :: "Time option"
  Finalizers :: "string list"
  Spec :: 'spec
  Status_Conditions :: "Condition list"
  Status_ObservedGeneration :: int

definition NamespacedNameOf :: "'spec Resource \<Rightarrow> NamespacedName" where
  "NamespacedNameOf r = (Namespace r, Name r)"

text \<open>\<^verbatim>\<open>ctrl.Result\<close>: the requeue decision returned to the work queue.\<close>

record Result =
  Requeue :: bool
  RequeueAfter :: Duration

definition EmptyResult :: Result where
  "EmptyResult = \<lparr>Requeue = False, RequeueAfter = 0\<rparr>"

text \<open>
  Errors are values. \<open>Wrapped\<close> is \<^verbatim>\<open>fmt.Errorf("...: %w", err)\<close>;
  \<^verbatim>\<open>apierrors.IsNotFound\<close> looks through the wrapping.
\<close>

datatype error = NotFound | Conflict | Other string | Wrapped string error

fun IsNotFound :: "error \<Rightarrow> bool" where
  "IsNotFound NotFound = True"
| "IsNotFound (Wrapped m e) = IsNotFound e"
| "IsNotFound e = False"

definition IgnoreNotFound :: "error \<Rightarrow> error option" where
  "IgnoreNotFound err = (if IsNotFound err then None else Some err)"

definition IsZero :: "Time option \<Rightarrow> bool" where
  "IsZero t = (case t of None \<Rightarrow> True | Some n \<Rightarrow> n = 0)"

section \<open>The collaborators: resource store, event recorder, library helpers\<close>

text \<open>
  Modelled from the spec: the resource store (\<^verbatim>\<open>client.Client\<close> of controller-runtime)
  and the event recorder are external collaborators that are not under the sources. The
  spec gives the store as \<^verbatim>\<open>Get(key) -> Resource | NotFoundError\<close>,
  \<^verbatim>\<open>UpdateSpec(resource)\<close> and \<^verbatim>\<open>UpdateStatus(resource)\<close>, status and spec being
  persisted through separate write paths. The world is the store's content, the log of
  the writes that reached it and the events recorded. Every call of the store can fail;
  the outcome of the calls of one invocation is read from an environment, as is the clock.
\<close>

datatype Write = UpdateCall NamespacedName | StatusUpdateCall NamespacedName

datatype EventType = EventTypeNormal | EventTypeWarning

type_synonym Event = "NamespacedName \<times> EventType \<times> string \<times> string"

record 'spec World =
  store :: "NamespacedName \<rightharpoonup> 'spec Resource"
  writes :: "Write list"
  events :: "Event list"

record Env =
  getErr :: "error option"
  updateErr :: "error option"
  statusUpdateErr :: "error option"
  now :: Time

definition Get :: "Env \<Rightarrow> 'spec World \<Rightarrow> NamespacedName \<Rightarrow> error + 'spec Resource" where
  "Get e w key =
     (case getErr e of
        Some err \<Rightarrow> Inl err
      | None \<Rightarrow> (case store w key of None \<Rightarrow> Inl NotFound | Some r \<Rightarrow> Inr r))"

text \<open>
  \<^verbatim>\<open>r.Update\<close>: the metadata and spec write path. The stored status is kept. Physical
  deletion is the store's: the spec has the resource physically removed by the external
  store once all finalizers are gone, removal of the finalizer being the action that
  unblocks it. So an update that leaves an object whose stored deletion timestamp is set
  without any finalizer removes the object from the store.
\<close>

definition Update :: "Env \<Rightarrow> 'spec World \<Rightarrow> 'spec Resource \<Rightarrow> error option \<times> 'spec World" where
  "Update e w r =
     (case updateErr e of
        Some err \<Rightarrow> (Some err, w)
      | None \<Rightarrow>
          (case store w (NamespacedNameOf r) of
             None \<Rightarrow> (Some NotFound, w)
           | Some old \<Rightarrow>
               (None,
                w\<lparr>store :=
                    (if \<not> IsZero (DeletionTimestamp old) \<and> Finalizers r = []
                     then (store w)(NamespacedNameOf r := None)
                     else (store w)(NamespacedNameOf r \<mapsto>
                            r\<lparr>Status_Conditions := Status_Conditions old,
                              Status_ObservedGeneration := Status_ObservedGeneration old\<rparr>)),
                  writes := writes w @ [UpdateCall (NamespacedNameOf r)]\<rparr>)))"

text \<open>
  \<^verbatim>\<open>r.Status().Update\<close>: the status write path. The stored metadata and spec are kept.
\<close>

definition StatusUpdate :: "Env \<Rightarrow> 'spec World \<Rightarrow> 'spec Resource \<Rightarrow> error option \<times> 'spec World" where
  "StatusUpdate e w r =
     (case statusUpdateErr e of
        Some err \<Rightarrow> (Some err, w)
      | None \<Rightarrow>
          (case store w (NamespacedNameOf r) of
             None \<Rightarrow> (Some NotFound, w)
           | Some old \<Rightarrow>
               (None,
                w\<lparr>store := (store w)(NamespacedNameOf r \<mapsto>
                       old\<lparr>Status_Conditions := Status_Conditions r,
                           Status_ObservedGeneration := Status_ObservedGeneration r\<rparr>),
                  writes := writes w @ [StatusUpdateCall (NamespacedNameOf r)]\<rparr>)))"

definition RecordEvent ::
  "'spec World \<Rightarrow> 'spec Resource \<Rightarrow> EventType \<Rightarrow> string \<Rightarrow> string \<Rightarrow> 'spec World" where
  "RecordEvent w r t reason message =
     w\<lparr>events := events w @ [(NamespacedNameOf r, t, reason, message)]\<rparr>"

text \<open>
  Modelled from the spec: \<^verbatim>\<open>controllerutil.ContainsFinalizer\<close>, \<^verbatim>\<open>AddFinalizer\<close> and
  \<^verbatim>\<open>RemoveFinalizer\<close> of controller-runtime are not under the sources. The finalizer
  marker is a string tag in the resource's metadata; adding a marker that is present
  changes nothing, removing deletes every occurrence.
\<close>

definition ContainsFinalizer :: "'spec Resource \<Rightarrow> string \<Rightarrow> bool" where
  "ContainsFinalizer r f = (f \<in> set (Finalizers r))"

definition AddFinalizer :: "'spec Resource \<Rightarrow> string \<Rightarrow> 'spec Resource" where
  "AddFinalizer r f =
     (if f \<in> set (Finalizers r) then r else r\<lparr>Finalizers := Finalizers r @ [f]\<rparr>)"

definition RemoveFinalizer :: "'spec Resource \<Rightarrow> string \<Rightarrow> 'spec Resource" where
  "RemoveFinalizer r f = r\<lparr>Finalizers := filter (\<lambda>g. g \<noteq> f) (Finalizers r)\<rparr>"

text \<open>
  Modelled from the spec: \<^verbatim>\<open>meta.FindStatusCondition\<close> and \<^verbatim>\<open>meta.SetStatusCondition\<close>
  of k8s.io/apimachinery are not under the sources. The spec: a condition list is keyed
  by type; setting a condition with an existing type replaces it in place, preserving the
  order of first insertion; conditions are timestamped. The entry found is the first one
  of the type. An entry that is set takes the new status, reason, message and observed
  generation; its transition time moves only when the status changes (to the new
  condition's time, or to the clock when that is zero). A new entry is appended, stamped
  with the clock when it carries no time.
\<close>

fun FindStatusCondition :: "Condition list \<Rightarrow> string \<Rightarrow> Condition option" where
  "FindStatusCondition [] t = None"
| "FindStatusCondition (c # cs) t = (if Type c = t then Some c else FindStatusCondition cs t)"

definition replaceCondition :: "Time \<Rightarrow> Condition \<Rightarrow> Condition \<Rightarrow> Condition" where
  "replaceCondition clock existing new =
     existing\<lparr>Status := Status new,
              LastTransitionTime :=
                (if Status existing \<noteq> Status new
                 then (if LastTransitionTime new \<noteq> 0 then LastTransitionTime new else clock)
                 else LastTransitionTime existing),
              Reason := Reason new,
              Message := Message new,
              ObservedGeneration := ObservedGeneration new\<rparr>"

fun SetStatusCondition :: "Time \<Rightarrow> Condition list \<Rightarrow> Condition \<Rightarrow> Condition list" where
  "SetStatusCondition clock [] new =
     [if LastTransitionTime new = 0 then new\<lparr>LastTransitionTime := clock\<rparr> else new]"
| "SetStatusCondition clock (c # cs) new =
     (if Type c = Type new then replaceCondition clock c new # cs
      else c # SetStatusCondition clock cs new)"

section \<open>MyResourceReconciler\<close>

definition myFinalizerName :: string where
  "myFinalizerName = ''myresource.example.com/finalizer''"

definition TypeReady :: string where
  "TypeReady = ''Ready''"

definition TypeDegraded :: string where
  "TypeDegraded = ''Degraded''"

text \<open>
  \<^verbatim>\<open>updateStatus\<close>: set the condition, copy the generation into the status, write
  through the status path. The resource is changed in memory only; what is persisted
  is what \<open>StatusUpdate\<close> stores.
\<close>

definition updateStatus ::
  "Env \<Rightarrow> 'spec World \<Rightarrow> 'spec Resource \<Rightarrow> Condition \<Rightarrow> error option \<times> 'spec World" where
  "updateStatus e w resource condition =
     (let resource1 = resource\<lparr>Status_Conditions :=
                         SetStatusCondition (now e) (Status_Conditions resource) condition\<rparr>;
          resource2 = resource1\<lparr>Status_ObservedGeneration := Generation resource1\<rparr>
      in case StatusUpdate e w resource2 of
           (Some err, w') \<Rightarrow> (Some (Wrapped ''failed to update status'' err), w')
         | (None, w') \<Rightarrow> (None, w'))"

text \<open>
  \<^verbatim>\<open>reconcileNormal\<close>. The source fixes the local \<^verbatim>\<open>isReady := true\<close> with a TODO to
  replace it by an actual check; \<open>reconcileNormalBody\<close> is the body of the function after
  that assignment, for either value of the local, and \<open>reconcileNormal\<close> is the function
  as the source has it: it only ever runs the body at \<open>True\<close>, so the not-ready branch is
  never reached. Theorems stated for every value of the local hold of the source at
  \<open>True\<close>.
\<close>

definition reconcileNormalBody ::
  "bool \<Rightarrow> Env \<Rightarrow> 'spec World \<Rightarrow> 'spec Resource \<Rightarrow> (Result \<times> error option) \<times> 'spec World" where
  "reconcileNormalBody isReady e w resource =
     (if isReady then
        (let condition = \<lparr>Type = TypeReady, Status = ConditionTrue,
                          ObservedGeneration = Generation resource, LastTransitionTime = 0,
                          Reason = ''ReconciliationSucceeded'',
                          Message = ''Resource reconciled successfully''\<rparr>
         in case updateStatus e w resource condition of
              (Some err, w') \<Rightarrow> ((EmptyResult, Some err), w')
            | (None, w') \<Rightarrow>
                ((\<lparr>Requeue = False, RequeueAfter = 5 * Minute\<rparr>, None),
                 RecordEvent w' resource EventTypeNormal ''Ready'' ''Resource is ready''))
      else
        (let condition = \<lparr>Type = TypeDegraded, Status = ConditionTrue,
                          ObservedGeneration = Generation resource, LastTransitionTime = 0,
                          Reason = ''NotReady'',
                          Message = ''Resource is not ready''\<rparr>
         in case updateStatus e w resource condition of
              (Some err, w') \<Rightarrow> ((EmptyResult, Some err), w')
            | (None, w') \<Rightarrow>
                ((\<lparr>Requeue = False, RequeueAfter = 30 * Second\<rparr>, None),
                 RecordEvent w' resource EventTypeWarning ''NotReady'' ''Resource is not ready'')))"

definition reconcileNormal ::
  "Env \<Rightarrow> 'spec World \<Rightarrow> 'spec Resource \<Rightarrow> (Result \<times> error option) \<times> 'spec World" where
  "reconcileNormal e w resource = (let isReady = True in reconcileNormalBody isReady e w resource)"

text \<open>
  \<^verbatim>\<open>reconcileDelete\<close>. The cleanup of external resources is a TODO comment in the source:
  no cleanup is called, and the finalizer is removed whenever it is present.
\<close>

definition reconcileDelete ::
  "Env \<Rightarrow> 'spec World \<Rightarrow> 'spec Resource \<Rightarrow> (Result \<times> error option) \<times> 'spec World" where
  "reconcileDelete e w resource =
     (if ContainsFinalizer resource myFinalizerName then
        (let resource1 = RemoveFinalizer resource myFinalizerName
         in case Update e w resource1 of
              (Some err, w') \<Rightarrow> ((EmptyResult, Some err), w')
            | (None, w') \<Rightarrow>
                ((EmptyResult, None),
                 RecordEvent w' resource1 EventTypeNormal ''Deleted'' ''Resource cleanup completed''))
      else ((EmptyResult, None), w))"

text \<open>
  \<^verbatim>\<open>MyResourceReconciler.Reconcile\<close>, with the value of \<^verbatim>\<open>isReady\<close> that
  \<^verbatim>\<open>reconcileNormal\<close> works with as a parameter; \<open>MyResource_Reconcile\<close> is the
  function as the source has it.
\<close>

definition MyResource_ReconcileBody ::
  "bool \<Rightarrow> Env \<Rightarrow> 'spec World \<Rightarrow> NamespacedName \<Rightarrow> (Result \<times> error option) \<times> 'spec World" where
  "MyResource_ReconcileBody isReady e w req =
     (case Get e w req of
        Inl err \<Rightarrow>
          (if IsNotFound err then ((EmptyResult, None), w) else ((EmptyResult, Some err), w))
      | Inr resource \<Rightarrow>
          (if \<not> IsZero (DeletionTimestamp resource) then reconcileDelete e w resource
           else if \<not> ContainsFinalizer resource myFinalizerName then
             (let resource1 = AddFinalizer resource myFinalizerName
              in case Update e w resource1 of
                   (Some err, w') \<Rightarrow> ((EmptyResult, Some err), w')
                 | (None, w') \<Rightarrow> ((\<lparr>Requeue = True, RequeueAfter = 0\<rparr>, None), w'))
           else reconcileNormalBody isReady e w resource))"

definition MyResource_Reconcile ::
  "Env \<Rightarrow> 'spec World \<Rightarrow> NamespacedName \<Rightarrow> (Result \<times> error option) \<times> 'spec World" where
  "MyResource_Reconcile e w req = MyResource_ReconcileBody True e w req"

section \<open>GuestbookReconciler\<close>

text \<open>
  \<^verbatim>\<open>GuestbookReconciler.Reconcile\<close> fetches the guestbook and writes an Available
  condition through the status path when the guard of its \<^verbatim>\<open>if\<close> holds:
  \<open>needsAvailable\<close> is that guard (no Available condition, or one observed at another
  generation, or one whose status is not True). The function has no finalizer handling
  and every \<^verbatim>\<open>return\<close> of it gives the empty \<^verbatim>\<open>ctrl.Result{}\<close>.
\<close>

definition needsAvailable :: "'spec Resource \<Rightarrow> bool" where
  "needsAvailable guestbook =
     (case FindStatusCondition (Status_Conditions guestbook) ''Available'' of
        None \<Rightarrow> True
      | Some available \<Rightarrow>
          ObservedGeneration available \<noteq> Generation guestbook
          \<or> Status available \<noteq> ConditionTrue)"

definition Guestbook_Reconcile ::
  "Env \<Rightarrow> 'spec World \<Rightarrow> NamespacedName \<Rightarrow> (Result \<times> error option) \<times> 'spec World" where
  "Guestbook_Reconcile e w req =
     (case Get e w req of
        Inl err \<Rightarrow> ((EmptyResult, IgnoreNotFound err), w)
      | Inr guestbook \<Rightarrow>
          (if needsAvailable guestbook then
             (let guestbook1 = guestbook\<lparr>Status_Conditions :=
                     SetStatusCondition (now e) (Status_Conditions guestbook)
                       \<lparr>Type = ''Available'', Status = ConditionTrue,
                        ObservedGeneration = Generation guestbook, LastTransitionTime = 0,
                        Reason = ''Reconciled'',
                        Message = ''Guestbook spec reconciled''\<rparr>\<rparr>
              in case StatusUpdate e w guestbook1 of
                   (Some err, w') \<Rightarrow> ((EmptyResult, Some err), w')
                 | (None, w') \<Rightarrow> ((EmptyResult, None), w'))
           else ((EmptyResult, None), w)))"

section \<open>Running a controller several times\<close>


section \<open>Sequences of set-condition operations\<close>

text \<open>The order in which condition types enter a list: a type already there keeps its place.\<close>

definition insertType :: "string list \<Rightarrow> string \<Rightarrow> string list" where
  "insertType ts t = (if t \<in> set ts then ts else ts @ [t])"

definition setConditions :: "Condition list \<Rightarrow> (Time \<times> Condition) list \<Rightarrow> Condition list" where
  "setConditions cs ops = foldl (\<lambda>acc (clock, c). SetStatusCondition clock acc c) cs ops"

section \<open>Concrete inputs\<close>

text \<open>
  A resource with \<^verbatim>\<open>spec.replicas = 3\<close> as it is right after creation, the same resource
  once it carries the finalizer, once its deletion has been requested, and being deleted
  while another controller's finalizer is on it as well; worlds that
  hold one resource or none; environments in which every store call succeeds or one of
  them fails.
\<close>

definition demoKey :: NamespacedName where
  "demoKey = (''default'', ''demo'')"

definition created :: "int Resource" where
  "created = \<lparr>Namespace = ''default'', Name = ''demo'', Generation = 1,
              DeletionTimestamp = None, Finalizers = [], Spec = 3,
              Status_Conditions = [], Status_ObservedGeneration = 0\<rparr>"

definition marked :: "int Resource" where
  "marked = created\<lparr>Finalizers := [myFinalizerName]\<rparr>"

definition deleting :: "int Resource" where
  "deleting = marked\<lparr>DeletionTimestamp := Some 100\<rparr>"

definition shared :: "int Resource" where
  "shared = deleting\<lparr>Finalizers := [myFinalizerName, ''other.example.com/finalizer'']\<rparr>"

definition worldOf :: "int Resource \<Rightarrow> int World" where
  "worldOf r = \<lparr>store = [NamespacedNameOf r \<mapsto> r], writes = [], events = []\<rparr>"

definition emptyWorld :: "int World" where
  "emptyWorld = \<lparr>store = Map.empty, writes = [], events = []\<rparr>"

definition envOK :: Env where
  "envOK = \<lparr>getErr = None, updateErr = None, statusUpdateErr = None, now = 7\<rparr>"

definition envGetFails :: Env where
  "envGetFails = envOK\<lparr>getErr := Some (Other ''timeout'')\<rparr>"

definition envUpdateFails :: Env where
  "envUpdateFails = envOK\<lparr>updateErr := Some Conflict\<rparr>"

definition envStatusFails :: Env where
  "envStatusFails = envOK\<lparr>statusUpdateErr := Some Conflict\<rparr>"

definition readyCondition :: Condition where
  "readyCondition = \<lparr>Type = TypeReady, Status = ConditionTrue,
             ObservedGeneration = 1, LastTransitionTime = 0,
             Reason = ''ReconciliationSucceeded'',
             Message = ''Resource reconciled successfully''\<rparr>"

definition degradedCondition :: Condition where
  "degradedCondition = \<lparr>Type = TypeDegraded, Status = ConditionTrue,
             ObservedGeneration = 1, LastTransitionTime = 0,
             Reason = ''NotReady'', Message = ''Resource is not ready''\<rparr>"

section \<open>Facts about the collaborators\<close>

lemmas example_defs = demoKey_def created_def marked_def deleting_def worldOf_def emptyWorld_def
  envOK_def envGetFails_def envUpdateFails_def envStatusFails_def NamespacedNameOf_def

lemma Get_Inr_iff: "Get e w req = Inr r \<longleftrightarrow> getErr e = None \<and> store w req = Some r"
  by (auto simp: Get_def split: option.splits)

lemma StatusUpdate_fails: "statusUpdateErr e = Some err \<Longrightarrow> StatusUpdate e w r = (Some err, w)"
  by (simp add: StatusUpdate_def)

lemma StatusUpdate_ok:
  "statusUpdateErr e = None \<Longrightarrow> store w (NamespacedNameOf r) = Some old \<Longrightarrow>
   StatusUpdate e w r =
     (None, w\<lparr>store := (store w)(NamespacedNameOf r \<mapsto>
                  old\<lparr>Status_Conditions := Status_Conditions r,
                      Status_ObservedGeneration := Status_ObservedGeneration r\<rparr>),
              writes := writes w @ [StatusUpdateCall (NamespacedNameOf r)]\<rparr>)"
  by (simp add: StatusUpdate_def)

lemma Update_fails: "updateErr e = Some err \<Longrightarrow> Update e w r = (Some err, w)"
  by (simp add: Update_def)

lemma Update_ok:
  "updateErr e = None \<Longrightarrow> store w (NamespacedNameOf r) = Some old \<Longrightarrow>
   Update e w r =
     (None, w\<lparr>store :=
                 (if \<not> IsZero (DeletionTimestamp old) \<and> Finalizers r = []
                  then (store w)(NamespacedNameOf r := None)
                  else (store w)(NamespacedNameOf r \<mapsto>
                         r\<lparr>Status_Conditions := Status_Conditions old,
                           Status_ObservedGeneration := Status_ObservedGeneration old\<rparr>)),
              writes := writes w @ [UpdateCall (NamespacedNameOf r)]\<rparr>)"
  by (simp add: Update_def)

lemma Find_Set_fields:
  "\<exists>x. FindStatusCondition (SetStatusCondition clock cs c) (Type c) = Some x
       \<and> Type x = Type c \<and> Status x = Status c \<and> ObservedGeneration x = ObservedGeneration c
       \<and> Reason x = Reason c \<and> Message x = Message c"
proof (induction cs)
  case Nil
  then show ?case by simp
next
  case (Cons a cs)
  then show ?case by (auto simp: replaceCondition_def)
qed


lemma Type_replaceCondition: "Type (replaceCondition t x c) = Type x"
  by (simp add: replaceCondition_def)


lemma types_SetStatusCondition:
  "map Type (SetStatusCondition clock cs c) = insertType (map Type cs) (Type c)"
  by (induction cs) (auto simp: insertType_def Type_replaceCondition)

section \<open>Facts about the controller's steps and the concrete inputs\<close>

lemma updateStatus_ok:
  assumes "statusUpdateErr e = None" "store w (NamespacedNameOf r) = Some old"
  shows "updateStatus e w r c =
     (None, w\<lparr>store := (store w)(NamespacedNameOf r \<mapsto>
                  old\<lparr>Status_Conditions := SetStatusCondition (now e) (Status_Conditions r) c,
                      Status_ObservedGeneration := Generation r\<rparr>),
              writes := writes w @ [StatusUpdateCall (NamespacedNameOf r)]\<rparr>)"
proof -
  let ?r2 = "r\<lparr>Status_Conditions := SetStatusCondition (now e) (Status_Conditions r) c,
              Status_ObservedGeneration := Generation r\<rparr>"
  have "store w (NamespacedNameOf ?r2) = Some old"
    using assms(2) by (simp add: NamespacedNameOf_def)
  from StatusUpdate_ok [OF assms(1) this] show ?thesis
    by (simp add: updateStatus_def Let_def NamespacedNameOf_def)
qed

lemma updateStatus_fails:
  "statusUpdateErr e = Some err \<Longrightarrow>
   updateStatus e w r c = (Some (Wrapped ''failed to update status'' err), w)"
  by (simp add: updateStatus_def Let_def StatusUpdate_fails)

lemma updateStatus_missing:
  "statusUpdateErr e = None \<Longrightarrow> store w (NamespacedNameOf r) = None \<Longrightarrow>
   updateStatus e w r c = (Some (Wrapped ''failed to update status'' NotFound), w)"
  by (simp add: updateStatus_def Let_def StatusUpdate_def NamespacedNameOf_def)

lemma Reconcile_normal:
  assumes "Get e w req = Inr r" "IsZero (DeletionTimestamp r)"
    "ContainsFinalizer r myFinalizerName"
  shows "MyResource_ReconcileBody b e w req = reconcileNormalBody b e w r"
  using assms by (simp add: MyResource_ReconcileBody_def)

lemma env_fields:
  "getErr envOK = None" "updateErr envOK = None" "statusUpdateErr envOK = None"
  "getErr envStatusFails = None" "statusUpdateErr envStatusFails = Some Conflict"
  "getErr envUpdateFails = None" "updateErr envUpdateFails = Some Conflict"
  "getErr envGetFails = Some (Other ''timeout'')"
  by (simp_all add: envOK_def envStatusFails_def envUpdateFails_def envGetFails_def)

lemma store_worldOf: "store (worldOf r) (NamespacedNameOf r) = Some r"
  by (simp add: worldOf_def)

lemma marked_pre:
  "IsZero (DeletionTimestamp marked)" "ContainsFinalizer marked myFinalizerName"
  "NamespacedNameOf marked = demoKey"
  by (simp_all add: example_defs IsZero_def ContainsFinalizer_def)

lemma Get_marked:
  "Get envOK (worldOf marked) demoKey = Inr marked"
  "Get envStatusFails (worldOf marked) demoKey = Inr marked"
  by (simp_all add: Get_Inr_iff example_defs)

lemma created_pre:
  "IsZero (DeletionTimestamp created)" "\<not> ContainsFinalizer created myFinalizerName"
  "NamespacedNameOf created = demoKey"
  by (simp_all add: example_defs IsZero_def ContainsFinalizer_def)

lemma Get_created:
  "Get envOK (worldOf created) demoKey = Inr created"
  "Get envUpdateFails (worldOf created) demoKey = Inr created"
  by (simp_all add: Get_Inr_iff example_defs)

section \<open>The fetch step\<close>

text \<open>
  Claim C5. When the fetch of the resource by its key fails with a not-found error, either
  controller returns success (empty result, no error) and leaves the world as it was: no
  write, no event. When the fetch fails with any other error, that error is returned, and
  the world is again left as it was.
\<close>

theorem fetch_failure:
  assumes "Get e w req = Inl err"
  shows "(IsNotFound err \<longrightarrow>
            MyResource_Reconcile e w req = ((EmptyResult, None), w)
          \<and> Guestbook_Reconcile e w req = ((EmptyResult, None), w))
       \<and> (\<not> IsNotFound err \<longrightarrow>
            MyResource_Reconcile e w req = ((EmptyResult, Some err), w)
          \<and> Guestbook_Reconcile e w req = ((EmptyResult, Some err), w))"
  using assms
  by (simp add: MyResource_Reconcile_def MyResource_ReconcileBody_def Guestbook_Reconcile_def
      IgnoreNotFound_def)

theorem fetch_failure_witness:
  "Get envOK emptyWorld demoKey = Inl NotFound
   \<and> MyResource_Reconcile envOK emptyWorld demoKey = ((EmptyResult, None), emptyWorld)
   \<and> Guestbook_Reconcile envOK emptyWorld demoKey = ((EmptyResult, None), emptyWorld)
   \<and> Get envGetFails (worldOf created) demoKey = Inl (Other ''timeout'')
   \<and> MyResource_Reconcile envGetFails (worldOf created) demoKey
       = ((EmptyResult, Some (Other ''timeout'')), worldOf created)
   \<and> Guestbook_Reconcile envGetFails (worldOf created) demoKey
       = ((EmptyResult, Some (Other ''timeout'')), worldOf created)"
proof -
  have a: "Get envOK emptyWorld demoKey = Inl NotFound"
    by (simp add: Get_def envOK_def emptyWorld_def)
  have b: "Get envGetFails (worldOf created) demoKey = Inl (Other ''timeout'')"
    by (simp add: Get_def envGetFails_def envOK_def)
  from fetch_failure [OF a] fetch_failure [OF b] a b show ?thesis by simp
qed

section \<open>The ready branch\<close>

text \<open>
  Claim C8, as amended. For every invocation of \<^verbatim>\<open>MyResourceReconciler.Reconcile\<close> where
  the resource is found (stored under its own name), is not being deleted and carries the
  finalizer: when the status write succeeds, the persisted status has a condition of type
  Ready with status True and the result asks for a requeue after exactly 5 minutes, with no
  error; when the status write fails, the wrapped error is returned with an empty result
  and the world is left as it was.
\<close>

theorem ready_branch:
  assumes "Get e w req = Inr r" "NamespacedNameOf r = req" "IsZero (DeletionTimestamp r)"
    "ContainsFinalizer r myFinalizerName"
  shows "(statusUpdateErr e = None \<longrightarrow>
           (\<exists>w'. MyResource_Reconcile e w req =
                   ((\<lparr>Requeue = False, RequeueAfter = 5 * Minute\<rparr>, None), w')
               \<and> (\<exists>p c. store w' req = Some p
                      \<and> FindStatusCondition (Status_Conditions p) TypeReady = Some c
                      \<and> Status c = ConditionTrue)))
       \<and> (\<forall>err. statusUpdateErr e = Some err \<longrightarrow>
             MyResource_Reconcile e w req =
               ((EmptyResult, Some (Wrapped ''failed to update status'' err)), w))"
proof (intro conjI impI allI)
  assume ok: "statusUpdateErr e = None"
  let ?c = "\<lparr>Type = TypeReady, Status = ConditionTrue,
             ObservedGeneration = Generation r, LastTransitionTime = 0,
             Reason = ''ReconciliationSucceeded'',
             Message = ''Resource reconciled successfully''\<rparr>"
  have stored: "store w (NamespacedNameOf r) = Some r"
    using assms(1,2) by (simp add: Get_Inr_iff)
  obtain x where x: "FindStatusCondition (SetStatusCondition (now e) (Status_Conditions r) ?c)
        (Type ?c) = Some x" "Status x = Status ?c"
    using Find_Set_fields [of "now e" "Status_Conditions r" ?c] by blast
  show "\<exists>w'. MyResource_Reconcile e w req =
                   ((\<lparr>Requeue = False, RequeueAfter = 5 * Minute\<rparr>, None), w')
               \<and> (\<exists>p c. store w' req = Some p
                      \<and> FindStatusCondition (Status_Conditions p) TypeReady = Some c
                      \<and> Status c = ConditionTrue)"
    using x assms(2)
    by (simp add: MyResource_Reconcile_def Reconcile_normal [OF assms(1,3,4)]
        reconcileNormalBody_def Let_def updateStatus_ok [OF ok stored] RecordEvent_def)
next
  fix err assume "statusUpdateErr e = Some err"
  then show "MyResource_Reconcile e w req =
               ((EmptyResult, Some (Wrapped ''failed to update status'' err)), w)"
    by (simp add: MyResource_Reconcile_def Reconcile_normal [OF assms(1,3,4)]
        reconcileNormalBody_def Let_def updateStatus_fails)
qed

text \<open>The theorem at a resource that carries the finalizer, with a store that works and one that fails.\<close>

theorem ready_branch_witness:
  "Get envOK (worldOf marked) demoKey = Inr marked
   \<and> NamespacedNameOf marked = demoKey
   \<and> IsZero (DeletionTimestamp marked)
   \<and> ContainsFinalizer marked myFinalizerName
   \<and> statusUpdateErr envOK = None
   \<and> (\<exists>w'. MyResource_Reconcile envOK (worldOf marked) demoKey =
              ((\<lparr>Requeue = False, RequeueAfter = 5 * Minute\<rparr>, None), w')
          \<and> (\<exists>p c. store w' demoKey = Some p
                 \<and> FindStatusCondition (Status_Conditions p) TypeReady = Some c
                 \<and> Status c = ConditionTrue))
   \<and> statusUpdateErr envStatusFails = Some Conflict
   \<and> MyResource_Reconcile envStatusFails (worldOf marked) demoKey =
       ((EmptyResult, Some (Wrapped ''failed to update status'' Conflict)), worldOf marked)"
proof -
  have ok: "statusUpdateErr envOK = None" by (simp add: envOK_def)
  have bad: "statusUpdateErr envStatusFails = Some Conflict"
    by (simp add: envStatusFails_def envOK_def)
  from ready_branch [OF Get_marked(1) marked_pre(3) marked_pre(1) marked_pre(2)]
    ready_branch [OF Get_marked(2) marked_pre(3) marked_pre(1) marked_pre(2)]
    ok bad Get_marked marked_pre
  show ?thesis by simp
qed

text \<open>
  Claim C8 as stated fails: the resource is found, not being deleted and carries the
  finalizer, the status write is refused with a conflict, and \<^verbatim>\<open>Reconcile\<close> returns the
  error and no requeue interval; nothing is persisted.
\<close>

theorem ready_branch_counterexample:
  "Get envStatusFails (worldOf marked) demoKey = Inr marked
   \<and> IsZero (DeletionTimestamp marked)
   \<and> ContainsFinalizer marked myFinalizerName
   \<and> fst (MyResource_Reconcile envStatusFails (worldOf marked) demoKey)
       = (\<lparr>Requeue = False, RequeueAfter = 0\<rparr>,
          Some (Wrapped ''failed to update status'' Conflict))
   \<and> fst (MyResource_Reconcile envStatusFails (worldOf marked) demoKey)
       \<noteq> (\<lparr>Requeue = False, RequeueAfter = 5 * Minute\<rparr>, None)
   \<and> snd (MyResource_Reconcile envStatusFails (worldOf marked) demoKey) = worldOf marked"
proof -
  have "MyResource_Reconcile envStatusFails (worldOf marked) demoKey
      = ((EmptyResult, Some (Wrapped ''failed to update status'' Conflict)), worldOf marked)"
    by (simp add: MyResource_Reconcile_def Reconcile_normal [OF Get_marked(2) marked_pre(1,2)]
        reconcileNormalBody_def Let_def updateStatus_fails [OF env_fields(5)])
  then show ?thesis
    by (simp add: Get_marked marked_pre EmptyResult_def)
qed

section \<open>Attaching the finalizer\<close>

text \<open>
  Claim C4, as amended. For every invocation where the resource is found (stored under its
  own name), its deletion timestamp is zero and the finalizer marker is absent: when the
  update succeeds, the resource is persisted with the marker appended to its finalizers,
  by one write through the update path and nothing else (no status write, no event, the
  rest of the resource and of the store as before), and the result asks for an immediate
  requeue; when the update fails, the error is returned with an empty result and the
  world is left as it was.
\<close>

theorem attach_finalizer:
  assumes "Get e w req = Inr r" "NamespacedNameOf r = req" "IsZero (DeletionTimestamp r)"
    "\<not> ContainsFinalizer r myFinalizerName"
  shows "(updateErr e = None \<longrightarrow>
            MyResource_Reconcile e w req =
              ((\<lparr>Requeue = True, RequeueAfter = 0\<rparr>, None),
               w\<lparr>store := (store w)(req \<mapsto> r\<lparr>Finalizers := Finalizers r @ [myFinalizerName]\<rparr>),
                 writes := writes w @ [UpdateCall req]\<rparr>))
       \<and> (\<forall>err. updateErr e = Some err \<longrightarrow>
             MyResource_Reconcile e w req = ((EmptyResult, Some err), w))"
proof (intro conjI impI allI)
  assume ok: "updateErr e = None"
  let ?r1 = "AddFinalizer r myFinalizerName"
  have r1: "?r1 = r\<lparr>Finalizers := Finalizers r @ [myFinalizerName]\<rparr>"
    using assms(4) by (simp add: AddFinalizer_def ContainsFinalizer_def)
  have key: "NamespacedNameOf ?r1 = req"
    using assms(2) by (simp add: r1 NamespacedNameOf_def)
  have stored: "store w (NamespacedNameOf ?r1) = Some r"
    using assms(1) key by (simp add: Get_Inr_iff)
  show "MyResource_Reconcile e w req =
              ((\<lparr>Requeue = True, RequeueAfter = 0\<rparr>, None),
               w\<lparr>store := (store w)(req \<mapsto> r\<lparr>Finalizers := Finalizers r @ [myFinalizerName]\<rparr>),
                 writes := writes w @ [UpdateCall req]\<rparr>)"
    using assms(1,3,4) key
    by (simp add: MyResource_Reconcile_def MyResource_ReconcileBody_def Let_def
        Update_ok [OF ok stored]) (simp add: r1)
next
  fix err assume "updateErr e = Some err"
  then show "MyResource_Reconcile e w req = ((EmptyResult, Some err), w)"
    using assms(1,3,4)
    by (simp add: MyResource_Reconcile_def MyResource_ReconcileBody_def Let_def Update_fails)
qed

text \<open>The theorem at a newly created resource.\<close>

theorem attach_finalizer_witness:
  "Get envOK (worldOf created) demoKey = Inr created
   \<and> NamespacedNameOf created = demoKey
   \<and> IsZero (DeletionTimestamp created)
   \<and> \<not> ContainsFinalizer created myFinalizerName
   \<and> updateErr envOK = None
   \<and> MyResource_Reconcile envOK (worldOf created) demoKey =
       ((\<lparr>Requeue = True, RequeueAfter = 0\<rparr>, None),
        (worldOf created)\<lparr>store := (store (worldOf created))(demoKey \<mapsto> marked),
                         writes := [UpdateCall demoKey]\<rparr>)
   \<and> updateErr envUpdateFails = Some Conflict
   \<and> MyResource_Reconcile envUpdateFails (worldOf created) demoKey =
       ((EmptyResult, Some Conflict), worldOf created)"
proof -
  have m: "created\<lparr>Finalizers := Finalizers created @ [myFinalizerName]\<rparr> = marked"
    by (simp add: marked_def created_def)
  have w: "writes (worldOf created) = []" by (simp add: worldOf_def)
  from attach_finalizer [OF Get_created(1) created_pre(3) created_pre(1) created_pre(2)]
    attach_finalizer [OF Get_created(2) created_pre(3) created_pre(1) created_pre(2)]
    env_fields Get_created created_pre
  show ?thesis by (simp add: m w)
qed

text \<open>
  Claim C4 as stated fails: the resource is found, not being deleted and without the
  marker, the update is refused with a conflict, and \<^verbatim>\<open>Reconcile\<close> returns the error
  with no requeue; the persisted resource still has no finalizer.
\<close>

theorem attach_finalizer_counterexample:
  "Get envUpdateFails (worldOf created) demoKey = Inr created
   \<and> IsZero (DeletionTimestamp created)
   \<and> \<not> ContainsFinalizer created myFinalizerName
   \<and> fst (MyResource_Reconcile envUpdateFails (worldOf created) demoKey)
       = (\<lparr>Requeue = False, RequeueAfter = 0\<rparr>, Some Conflict)
   \<and> store (snd (MyResource_Reconcile envUpdateFails (worldOf created) demoKey)) demoKey
       = Some created
   \<and> Finalizers created = []"
proof -
  have "MyResource_Reconcile envUpdateFails (worldOf created) demoKey
      = ((EmptyResult, Some Conflict), worldOf created)"
    using Get_created(2) created_pre(1,2)
    by (simp add: MyResource_Reconcile_def MyResource_ReconcileBody_def Let_def
        Update_fails [OF env_fields(7)])
  then show ?thesis
    using store_worldOf [of created]
    by (simp add: Get_created created_pre EmptyResult_def) (simp add: created_def)
qed

section \<open>Generation tracking\<close>

lemma updateStatus_None:
  assumes "updateStatus e w r c = (None, w')"
  shows "\<exists>old. store w (NamespacedNameOf r) = Some old \<and> statusUpdateErr e = None"
proof (cases "statusUpdateErr e")
  case None
  show ?thesis
  proof (cases "store w (NamespacedNameOf r)")
    case n: None
    from updateStatus_missing [OF None n, of c] assms show ?thesis by simp
  next
    case (Some old)
    with None show ?thesis by simp
  qed
next
  case (Some err)
  from updateStatus_fails [OF Some, of w r c] assms show ?thesis by simp
qed

text \<open>
  Claim C6. After every status write that \<^verbatim>\<open>updateStatus\<close> performs (it returns no
  error), the persisted status has observedGeneration equal to the generation of the
  resource it was called with. In particular, after a normal reconciliation that returns
  no error, in the Ready branch and in the Degraded branch alike, the persisted resource
  has status.observedGeneration equal to its generation, which is the generation the
  resource had when it was fetched.
\<close>

theorem observed_generation:
  "(updateStatus e w r c = (None, w1) \<longrightarrow>
      (\<exists>p. store w1 (NamespacedNameOf r) = Some p
         \<and> Status_ObservedGeneration p = Generation r))
   \<and> (Get e w req = Inr r \<and> NamespacedNameOf r = req \<and> IsZero (DeletionTimestamp r)
        \<and> ContainsFinalizer r myFinalizerName
        \<and> MyResource_ReconcileBody isReady e w req = ((res, None), w2) \<longrightarrow>
      (\<exists>p. store w2 req = Some p
         \<and> Status_ObservedGeneration p = Generation p \<and> Generation p = Generation r))"
proof (intro conjI impI)
  assume a: "updateStatus e w r c = (None, w1)"
  from updateStatus_None [OF a] obtain old where
    old: "store w (NamespacedNameOf r) = Some old" and ok: "statusUpdateErr e = None"
    by blast
  from a updateStatus_ok [OF ok old, of c]
  show "\<exists>p. store w1 (NamespacedNameOf r) = Some p \<and> Status_ObservedGeneration p = Generation r"
    by auto
next
  assume h: "Get e w req = Inr r \<and> NamespacedNameOf r = req \<and> IsZero (DeletionTimestamp r)
        \<and> ContainsFinalizer r myFinalizerName
        \<and> MyResource_ReconcileBody isReady e w req = ((res, None), w2)"
  then have g: "Get e w req = Inr r" and k: "NamespacedNameOf r = req"
    and z: "IsZero (DeletionTimestamp r)" and f: "ContainsFinalizer r myFinalizerName"
    by simp_all
  from h have run: "reconcileNormalBody isReady e w r = ((res, None), w2)"
    by (simp add: Reconcile_normal [OF g z f])
  have stored: "store w (NamespacedNameOf r) = Some r"
    using g k by (simp add: Get_Inr_iff)
  have ok: "statusUpdateErr e = None"
  proof (cases "statusUpdateErr e")
    case None then show ?thesis .
  next
    case (Some err)
    from run updateStatus_fails [OF Some, of w r] show ?thesis
      by (simp add: reconcileNormalBody_def Let_def split: if_splits)
  qed
  from run k show "\<exists>p. store w2 req = Some p
         \<and> Status_ObservedGeneration p = Generation p \<and> Generation p = Generation r"
    by (auto simp: reconcileNormalBody_def Let_def updateStatus_ok [OF ok stored]
        RecordEvent_def split: if_splits)
qed

text \<open>
  The theorem at a resource that carries the finalizer: the status write itself, and the
  reconciliation with the readiness check succeeding and failing.
\<close>

theorem observed_generation_witness:
  "updateStatus envOK (worldOf marked) marked readyCondition
     = (None, snd (updateStatus envOK (worldOf marked) marked readyCondition))
   \<and> (\<exists>p. store (snd (updateStatus envOK (worldOf marked) marked readyCondition))
            (NamespacedNameOf marked) = Some p
         \<and> Status_ObservedGeneration p = Generation marked)
   \<and> Get envOK (worldOf marked) demoKey = Inr marked
   \<and> NamespacedNameOf marked = demoKey \<and> IsZero (DeletionTimestamp marked)
   \<and> ContainsFinalizer marked myFinalizerName
   \<and> MyResource_ReconcileBody True envOK (worldOf marked) demoKey
       = ((\<lparr>Requeue = False, RequeueAfter = 5 * Minute\<rparr>, None),
          snd (MyResource_ReconcileBody True envOK (worldOf marked) demoKey))
   \<and> (\<exists>p. store (snd (MyResource_ReconcileBody True envOK (worldOf marked) demoKey)) demoKey
            = Some p
         \<and> Status_ObservedGeneration p = Generation p \<and> Generation p = Generation marked)
   \<and> MyResource_ReconcileBody False envOK (worldOf marked) demoKey
       = ((\<lparr>Requeue = False, RequeueAfter = 30 * Second\<rparr>, None),
          snd (MyResource_ReconcileBody False envOK (worldOf marked) demoKey))
   \<and> (\<exists>p. store (snd (MyResource_ReconcileBody False envOK (worldOf marked) demoKey)) demoKey
            = Some p
         \<and> Status_ObservedGeneration p = Generation p \<and> Generation p = Generation marked)"
proof -
  have u: "updateStatus envOK (worldOf marked) marked readyCondition
     = (None, snd (updateStatus envOK (worldOf marked) marked readyCondition))"
    by (simp add: updateStatus_ok [OF env_fields(3) store_worldOf])
  have t: "MyResource_ReconcileBody True envOK (worldOf marked) demoKey
       = ((\<lparr>Requeue = False, RequeueAfter = 5 * Minute\<rparr>, None),
          snd (MyResource_ReconcileBody True envOK (worldOf marked) demoKey))"
    by (simp add: Reconcile_normal [OF Get_marked(1) marked_pre(1,2)]
        reconcileNormalBody_def Let_def updateStatus_ok [OF env_fields(3) store_worldOf])
  have f: "MyResource_ReconcileBody False envOK (worldOf marked) demoKey
       = ((\<lparr>Requeue = False, RequeueAfter = 30 * Second\<rparr>, None),
          snd (MyResource_ReconcileBody False envOK (worldOf marked) demoKey))"
    by (simp add: Reconcile_normal [OF Get_marked(1) marked_pre(1,2)]
        reconcileNormalBody_def Let_def updateStatus_ok [OF env_fields(3) store_worldOf])
  from observed_generation [of envOK "worldOf marked" marked readyCondition
      "snd (updateStatus envOK (worldOf marked) marked readyCondition)" demoKey True
      "\<lparr>Requeue = False, RequeueAfter = 5 * Minute\<rparr>"
      "snd (MyResource_ReconcileBody True envOK (worldOf marked) demoKey)"]
    observed_generation [of envOK "worldOf marked" marked readyCondition
      "snd (updateStatus envOK (worldOf marked) marked readyCondition)" demoKey False
      "\<lparr>Requeue = False, RequeueAfter = 30 * Second\<rparr>"
      "snd (MyResource_ReconcileBody False envOK (worldOf marked) demoKey)"]
    u t f Get_marked(1) marked_pre
  show ?thesis by simp
qed

section \<open>The deletion branch\<close>

lemma deleting_pre:
  "\<not> IsZero (DeletionTimestamp deleting)" "ContainsFinalizer deleting myFinalizerName"
  "NamespacedNameOf deleting = demoKey"
  by (simp_all add: example_defs IsZero_def ContainsFinalizer_def)

lemma Get_deleting:
  "Get envOK (worldOf deleting) demoKey = Inr deleting"
  "Get envUpdateFails (worldOf deleting) demoKey = Inr deleting"
  by (simp_all add: Get_Inr_iff example_defs)

lemma Reconcile_delete:
  assumes "Get e w req = Inr r" "\<not> IsZero (DeletionTimestamp r)"
  shows "MyResource_ReconcileBody b e w req = reconcileDelete e w r"
  using assms by (simp add: MyResource_ReconcileBody_def)

lemma reconcileDelete_update_fails:
  "ContainsFinalizer r myFinalizerName \<Longrightarrow> updateErr e = Some err \<Longrightarrow>
   reconcileDelete e w r = ((EmptyResult, Some err), w)"
  by (simp add: reconcileDelete_def Let_def Update_fails)

lemma reconcileDelete_update_ok:
  assumes "ContainsFinalizer r myFinalizerName" "updateErr e = None"
    "store w (NamespacedNameOf r) = Some r" "\<not> IsZero (DeletionTimestamp r)"
  shows "reconcileDelete e w r =
     ((EmptyResult, None),
      w\<lparr>store :=
          (if filter (\<lambda>g. g \<noteq> myFinalizerName) (Finalizers r) = []
           then (store w)(NamespacedNameOf r := None)
           else (store w)(NamespacedNameOf r \<mapsto> RemoveFinalizer r myFinalizerName)),
        writes := writes w @ [UpdateCall (NamespacedNameOf r)],
        events := events w @ [(NamespacedNameOf r, EventTypeNormal, ''Deleted'',
                               ''Resource cleanup completed'')]\<rparr>)"
proof -
  let ?r1 = "RemoveFinalizer r myFinalizerName"
  have key: "NamespacedNameOf ?r1 = NamespacedNameOf r"
    by (simp add: RemoveFinalizer_def NamespacedNameOf_def)
  have stored: "store w (NamespacedNameOf ?r1) = Some r"
    using assms(3) key by simp
  have same: "?r1\<lparr>Status_Conditions := Status_Conditions r,
                  Status_ObservedGeneration := Status_ObservedGeneration r\<rparr> = ?r1"
    by (simp add: RemoveFinalizer_def)
  have fs: "Finalizers ?r1 = filter (\<lambda>g. g \<noteq> myFinalizerName) (Finalizers r)"
    by (simp add: RemoveFinalizer_def)
  show ?thesis
    using assms(1,4)
    by (simp add: reconcileDelete_def Let_def Update_ok [OF assms(2) stored] RecordEvent_def
        key same fs)
qed

section \<open>The condition list\<close>

lemma distinct_insertType: "distinct ts \<Longrightarrow> distinct (insertType ts t)"
  by (simp add: insertType_def)

lemma distinct_foldl_insertType: "distinct ts \<Longrightarrow> distinct (foldl insertType ts us)"
  by (induction us arbitrary: ts) (simp_all add: distinct_insertType)

lemma setConditions_Cons:
  "setConditions cs ((clock, c) # ops) = setConditions (SetStatusCondition clock cs c) ops"
  by (simp add: setConditions_def)

lemma types_setConditions:
  "map Type (setConditions cs ops) = foldl insertType (map Type cs) (map (Type \<circ> snd) ops)"
proof (induction ops arbitrary: cs)
  case Nil
  show ?case by (simp add: setConditions_def)
next
  case (Cons op ops)
  obtain clock c where op: "op = (clock, c)" by (cases op)
  show ?case
    by (simp add: op setConditions_Cons Cons.IH types_SetStatusCondition)
qed

lemma SetStatusCondition_in_place:
  "Type c \<in> set (map Type cs) \<Longrightarrow>
   \<exists>i<length cs. Type (cs ! i) = Type c
       \<and> SetStatusCondition clock cs c = cs[i := replaceCondition clock (cs ! i) c]"
proof (induction cs)
  case Nil
  then show ?case by simp
next
  case (Cons x xs)
  show ?case
  proof (cases "Type x = Type c")
    case True
    then have "0 < length (x # xs) \<and> Type ((x # xs) ! 0) = Type c
       \<and> SetStatusCondition clock (x # xs) c
           = (x # xs)[0 := replaceCondition clock ((x # xs) ! 0) c]"
      by simp
    then show ?thesis by blast
  next
    case False
    with Cons.prems have "Type c \<in> set (map Type xs)" by auto
    from Cons.IH [OF this] obtain i where i: "i < length xs" "Type (xs ! i) = Type c"
      "SetStatusCondition clock xs c = xs[i := replaceCondition clock (xs ! i) c]"
      by blast
    with False have "Suc i < length (x # xs) \<and> Type ((x # xs) ! Suc i) = Type c
       \<and> SetStatusCondition clock (x # xs) c
           = (x # xs)[Suc i := replaceCondition clock ((x # xs) ! Suc i) c]"
      by simp
    then show ?thesis by blast
  qed
qed

lemma SetStatusCondition_append:
  "Type c \<notin> set (map Type cs) \<Longrightarrow>
   SetStatusCondition clock cs c =
     cs @ [if LastTransitionTime c = 0 then c\<lparr>LastTransitionTime := clock\<rparr> else c]"
  by (induction cs) auto

text \<open>
  Claim C9. A condition list holds at most one entry per condition type: that is so for
  every list built from the empty list by set-condition operations, and every sequence of
  set-condition operations keeps it so for a list that has the property. The types of the
  list after a sequence of operations are the types before it followed by the new types
  in the order in which they were first set. Setting a condition whose type already exists
  replaces the entry at its index: the list keeps its length and the order of its types,
  and the entry of that type carries the new status, reason, message and observed
  generation. Setting a condition of a new type appends it.
\<close>

theorem condition_list_keyed_by_type:
  "distinct (map Type (setConditions [] ops))
   \<and> (distinct (map Type cs) \<longrightarrow> distinct (map Type (setConditions cs ops)))
   \<and> map Type (setConditions cs ops) = foldl insertType (map Type cs) (map (Type \<circ> snd) ops)
   \<and> (Type c \<in> set (map Type cs) \<longrightarrow>
        (\<exists>i<length cs. Type (cs ! i) = Type c
            \<and> SetStatusCondition clock cs c = cs[i := replaceCondition clock (cs ! i) c])
        \<and> map Type (SetStatusCondition clock cs c) = map Type cs
        \<and> (\<exists>x. FindStatusCondition (SetStatusCondition clock cs c) (Type c) = Some x
               \<and> Status x = Status c \<and> Reason x = Reason c \<and> Message x = Message c
               \<and> ObservedGeneration x = ObservedGeneration c))
   \<and> (Type c \<notin> set (map Type cs) \<longrightarrow>
        SetStatusCondition clock cs c =
          cs @ [if LastTransitionTime c = 0 then c\<lparr>LastTransitionTime := clock\<rparr> else c])"
proof (intro conjI impI)
  show "distinct (map Type (setConditions [] ops))"
    by (simp add: types_setConditions distinct_foldl_insertType)
  show "distinct (map Type (setConditions cs ops))" if "distinct (map Type cs)"
    using that by (simp add: types_setConditions distinct_foldl_insertType)
  show "map Type (setConditions cs ops) = foldl insertType (map Type cs) (map (Type \<circ> snd) ops)"
    by (rule types_setConditions)
  show "\<exists>i<length cs. Type (cs ! i) = Type c
            \<and> SetStatusCondition clock cs c = cs[i := replaceCondition clock (cs ! i) c]"
    if "Type c \<in> set (map Type cs)"
    using that by (rule SetStatusCondition_in_place)
  show "map Type (SetStatusCondition clock cs c) = map Type cs"
    if "Type c \<in> set (map Type cs)"
    using that by (simp add: types_SetStatusCondition insertType_def)
  show "\<exists>x. FindStatusCondition (SetStatusCondition clock cs c) (Type c) = Some x
               \<and> Status x = Status c \<and> Reason x = Reason c \<and> Message x = Message c
               \<and> ObservedGeneration x = ObservedGeneration c"
    using Find_Set_fields [of clock cs c] by blast
  show "SetStatusCondition clock cs c =
          cs @ [if LastTransitionTime c = 0 then c\<lparr>LastTransitionTime := clock\<rparr> else c]"
    if "Type c \<notin> set (map Type cs)"
    using that by (rule SetStatusCondition_append)
qed

text \<open>
  The theorem at a list with a Ready and a Degraded entry: setting Ready again changes the
  first entry where it stands; setting Degraded on a list without it appends.
\<close>

theorem condition_list_keyed_by_type_witness:
  "distinct (map Type [readyCondition, degradedCondition])
   \<and> distinct (map Type (setConditions [readyCondition, degradedCondition]
        [(5, readyCondition\<lparr>Status := ConditionFalse\<rparr>), (6, degradedCondition)]))
   \<and> map Type (setConditions [readyCondition, degradedCondition]
        [(5, readyCondition\<lparr>Status := ConditionFalse\<rparr>), (6, degradedCondition)])
       = [''Ready'', ''Degraded'']
   \<and> Type (readyCondition\<lparr>Status := ConditionFalse\<rparr>)
       \<in> set (map Type [readyCondition, degradedCondition])
   \<and> SetStatusCondition 5 [readyCondition, degradedCondition]
        (readyCondition\<lparr>Status := ConditionFalse\<rparr>)
       = [readyCondition\<lparr>Status := ConditionFalse, LastTransitionTime := 5\<rparr>, degradedCondition]
   \<and> Type degradedCondition \<notin> set (map Type [readyCondition])
   \<and> SetStatusCondition 6 [readyCondition] degradedCondition
       = [readyCondition, degradedCondition\<lparr>LastTransitionTime := 6\<rparr>]"
proof -
  have t: "Type readyCondition = ''Ready''" "Type degradedCondition = ''Degraded''"
    by (simp_all add: readyCondition_def degradedCondition_def TypeReady_def TypeDegraded_def)
  have d: "distinct (map Type [readyCondition, degradedCondition])"
    by (simp add: t)
  have m: "Type (readyCondition\<lparr>Status := ConditionFalse\<rparr>)
       \<in> set (map Type [readyCondition, degradedCondition])"
    by (simp add: t)
  have n: "Type degradedCondition \<notin> set (map Type [readyCondition])"
    by (simp add: t)
  have r: "replaceCondition 5 readyCondition (readyCondition\<lparr>Status := ConditionFalse\<rparr>)
      = readyCondition\<lparr>Status := ConditionFalse, LastTransitionTime := 5\<rparr>"
    by (simp add: replaceCondition_def readyCondition_def)
  have z: "LastTransitionTime degradedCondition = 0"
    by (simp add: degradedCondition_def)
  from condition_list_keyed_by_type [of
      "[(5, readyCondition\<lparr>Status := ConditionFalse\<rparr>), (6, degradedCondition)]"
      "[readyCondition, degradedCondition]" "readyCondition\<lparr>Status := ConditionFalse\<rparr>" 5]
    condition_list_keyed_by_type [of "[]" "[readyCondition]" degradedCondition 6]
    d m n
  show ?thesis
    by (simp add: t r z insertType_def)
qed

section \<open>What one invocation does to the world\<close>

text \<open>
  One invocation of \<^verbatim>\<open>MyResourceReconciler.Reconcile\<close> leaves the world as it was, or
  appends the finalizer through the update path, or removes it through the update path,
  or writes the status through the status path. One invocation of
  \<^verbatim>\<open>GuestbookReconciler.Reconcile\<close> leaves the world as it was or writes the conditions
  through the status path.
\<close>

lemma reconcileNormalBody_fails:
  "statusUpdateErr e = Some err \<Longrightarrow>
   reconcileNormalBody b e w r = ((EmptyResult, Some (Wrapped ''failed to update status'' err)), w)"
  by (simp add: reconcileNormalBody_def Let_def updateStatus_fails)

lemma reconcileNormalBody_ok:
  assumes "statusUpdateErr e = None" "store w (NamespacedNameOf r) = Some old"
  shows "reconcileNormalBody b e w r =
     ((\<lparr>Requeue = False, RequeueAfter = (if b then 5 * Minute else 30 * Second)\<rparr>, None),
      w\<lparr>store := (store w)(NamespacedNameOf r \<mapsto>
            old\<lparr>Status_Conditions := SetStatusCondition (now e) (Status_Conditions r)
                  \<lparr>Type = (if b then TypeReady else TypeDegraded), Status = ConditionTrue,
                   ObservedGeneration = Generation r, LastTransitionTime = 0,
                   Reason = (if b then ''ReconciliationSucceeded'' else ''NotReady''),
                   Message = (if b then ''Resource reconciled successfully''
                              else ''Resource is not ready'')\<rparr>,
                Status_ObservedGeneration := Generation r\<rparr>),
        writes := writes w @ [StatusUpdateCall (NamespacedNameOf r)],
        events := events w @
          [(NamespacedNameOf r, if b then EventTypeNormal else EventTypeWarning,
            if b then ''Ready'' else ''NotReady'',
            if b then ''Resource is ready'' else ''Resource is not ready'')]\<rparr>)"
  by (cases b)
    (simp_all add: reconcileNormalBody_def Let_def updateStatus_ok [OF assms] RecordEvent_def)

lemma attach_ok:
  assumes "Get e w req = Inr r" "NamespacedNameOf r = req" "IsZero (DeletionTimestamp r)"
    "\<not> ContainsFinalizer r myFinalizerName" "updateErr e = None"
  shows "MyResource_ReconcileBody b e w req =
              ((\<lparr>Requeue = True, RequeueAfter = 0\<rparr>, None),
               w\<lparr>store := (store w)(req \<mapsto> r\<lparr>Finalizers := Finalizers r @ [myFinalizerName]\<rparr>),
                 writes := writes w @ [UpdateCall req]\<rparr>)"
proof -
  let ?r1 = "AddFinalizer r myFinalizerName"
  have r1: "?r1 = r\<lparr>Finalizers := Finalizers r @ [myFinalizerName]\<rparr>"
    using assms(4) by (simp add: AddFinalizer_def ContainsFinalizer_def)
  have key: "NamespacedNameOf ?r1 = req"
    using assms(2) by (simp add: r1 NamespacedNameOf_def)
  have stored: "store w (NamespacedNameOf ?r1) = Some r"
    using assms(1) key by (simp add: Get_Inr_iff)
  show ?thesis
    using assms(1,3,4) key
    by (simp add: MyResource_ReconcileBody_def Let_def Update_ok [OF assms(5) stored])
      (simp add: r1)
qed

lemma attach_fails:
  assumes "Get e w req = Inr r" "IsZero (DeletionTimestamp r)"
    "\<not> ContainsFinalizer r myFinalizerName" "updateErr e = Some err"
  shows "MyResource_ReconcileBody b e w req = ((EmptyResult, Some err), w)"
  using assms by (simp add: MyResource_ReconcileBody_def Let_def Update_fails)

lemma delete_unmarked:
  assumes "Get e w req = Inr r" "\<not> IsZero (DeletionTimestamp r)"
    "\<not> ContainsFinalizer r myFinalizerName"
  shows "MyResource_ReconcileBody b e w req = ((EmptyResult, None), w)"
  using assms by (simp add: MyResource_ReconcileBody_def reconcileDelete_def)

lemma MyResource_shape:
  assumes wf: "\<forall>r. store w req = Some r \<longrightarrow> NamespacedNameOf r = req"
  obtains (same) "snd (MyResource_ReconcileBody b e w req) = w"
  | (attach) r where "store w req = Some r"
      "snd (MyResource_ReconcileBody b e w req) =
         w\<lparr>store := (store w)(req \<mapsto> r\<lparr>Finalizers := Finalizers r @ [myFinalizerName]\<rparr>),
           writes := writes w @ [UpdateCall req]\<rparr>"
      "myFinalizerName \<notin> set (Finalizers r)"
  | (remove) r ev where "store w req = Some r"
      "snd (MyResource_ReconcileBody b e w req) =
         w\<lparr>store :=
             (if filter (\<lambda>g. g \<noteq> myFinalizerName) (Finalizers r) = []
              then (store w)(req := None)
              else (store w)(req \<mapsto>
                     r\<lparr>Finalizers := filter (\<lambda>g. g \<noteq> myFinalizerName) (Finalizers r)\<rparr>)),
           writes := writes w @ [UpdateCall req],
           events := events w @ [ev]\<rparr>"
      "myFinalizerName \<in> set (Finalizers r)" "\<not> IsZero (DeletionTimestamp r)"
  | (status) r c ev where "store w req = Some r"
      "snd (MyResource_ReconcileBody b e w req) =
         w\<lparr>store := (store w)(req \<mapsto>
               r\<lparr>Status_Conditions := SetStatusCondition (now e) (Status_Conditions r) c,
                 Status_ObservedGeneration := Generation r\<rparr>),
           writes := writes w @ [StatusUpdateCall req],
           events := events w @ [ev]\<rparr>"
proof (cases "Get e w req")
  case (Inl err)
  then have "snd (MyResource_ReconcileBody b e w req) = w"
    by (simp add: MyResource_ReconcileBody_def)
  then show ?thesis by (rule same)
next
  case (Inr r)
  then have stored: "store w req = Some r" by (simp add: Get_Inr_iff)
  with wf have key: "NamespacedNameOf r = req" by simp
  have stored': "store w (NamespacedNameOf r) = Some r" using stored key by simp
  show ?thesis
  proof (cases "IsZero (DeletionTimestamp r)")
    case z: True
    show ?thesis
    proof (cases "ContainsFinalizer r myFinalizerName")
      case f: True
      show ?thesis
      proof (cases "statusUpdateErr e")
        case None
        have "snd (MyResource_ReconcileBody b e w req) =
             w\<lparr>store := (store w)(req \<mapsto>
                   r\<lparr>Status_Conditions := SetStatusCondition (now e) (Status_Conditions r)
                        \<lparr>Type = (if b then TypeReady else TypeDegraded), Status = ConditionTrue,
                         ObservedGeneration = Generation r, LastTransitionTime = 0,
                         Reason = (if b then ''ReconciliationSucceeded'' else ''NotReady''),
                         Message = (if b then ''Resource reconciled successfully''
                                    else ''Resource is not ready'')\<rparr>,
                     Status_ObservedGeneration := Generation r\<rparr>),
               writes := writes w @ [StatusUpdateCall req],
               events := events w @
                 [(req, if b then EventTypeNormal else EventTypeWarning,
                   if b then ''Ready'' else ''NotReady'',
                   if b then ''Resource is ready'' else ''Resource is not ready'')]\<rparr>"
          using key
          by (simp add: Reconcile_normal [OF Inr z f] reconcileNormalBody_ok [OF None stored'])
        with stored show ?thesis by (rule status)
      next
        case (Some err)
        have "snd (MyResource_ReconcileBody b e w req) = w"
          by (simp add: Reconcile_normal [OF Inr z f] reconcileNormalBody_fails [OF Some])
        then show ?thesis by (rule same)
      qed
    next
      case f: False
      show ?thesis
      proof (cases "updateErr e")
        case None
        from attach_ok [OF Inr key z f None, of b] f stored show ?thesis
          by (intro attach [of r]) (simp_all add: ContainsFinalizer_def)
      next
        case (Some err)
        from attach_fails [OF Inr z f Some, of b] show ?thesis
          by (intro same) simp
      qed
    qed
  next
    case z: False
    show ?thesis
    proof (cases "ContainsFinalizer r myFinalizerName")
      case f: True
      show ?thesis
      proof (cases "updateErr e")
        case None
        have "snd (MyResource_ReconcileBody b e w req) =
             w\<lparr>store :=
                 (if filter (\<lambda>g. g \<noteq> myFinalizerName) (Finalizers r) = []
                  then (store w)(req := None)
                  else (store w)(req \<mapsto>
                         r\<lparr>Finalizers := filter (\<lambda>g. g \<noteq> myFinalizerName) (Finalizers r)\<rparr>)),
               writes := writes w @ [UpdateCall req],
               events := events w @
                 [(req, EventTypeNormal, ''Deleted'', ''Resource cleanup completed'')]\<rparr>"
          using key
          by (simp add: Reconcile_delete [OF Inr z]
              reconcileDelete_update_ok [OF f None stored' z] RemoveFinalizer_def)
        moreover have "myFinalizerName \<in> set (Finalizers r)"
          using f by (simp add: ContainsFinalizer_def)
        ultimately show ?thesis using stored z by (intro remove [of r]) simp_all
      next
        case (Some err)
        from reconcileDelete_update_fails [OF f Some, of w] show ?thesis
          by (intro same) (simp add: Reconcile_delete [OF Inr z])
      qed
    next
      case f: False
      from delete_unmarked [OF Inr z f, of b] show ?thesis
        by (intro same) simp
    qed
  qed
qed

lemma Guestbook_shape:
  assumes wf: "\<forall>r. store w req = Some r \<longrightarrow> NamespacedNameOf r = req"
  obtains (same) "snd (Guestbook_Reconcile e w req) = w"
  | (status) g c where "store w req = Some g"
      "snd (Guestbook_Reconcile e w req) =
         w\<lparr>store := (store w)(req \<mapsto>
               g\<lparr>Status_Conditions := SetStatusCondition (now e) (Status_Conditions g) c\<rparr>),
           writes := writes w @ [StatusUpdateCall req]\<rparr>"
proof (cases "Get e w req")
  case (Inl err)
  then have "snd (Guestbook_Reconcile e w req) = w"
    by (simp add: Guestbook_Reconcile_def)
  then show ?thesis by (rule same)
next
  case (Inr g)
  then have stored: "store w req = Some g" by (simp add: Get_Inr_iff)
  with wf have key: "NamespacedNameOf g = req" by simp
  show ?thesis
  proof (cases "needsAvailable g \<and> statusUpdateErr e = None")
    case True
    let ?c = "\<lparr>Type = ''Available'', Status = ConditionTrue,
               ObservedGeneration = Generation g, LastTransitionTime = 0,
               Reason = ''Reconciled'', Message = ''Guestbook spec reconciled''\<rparr>"
    let ?g1 = "g\<lparr>Status_Conditions := SetStatusCondition (now e) (Status_Conditions g) ?c\<rparr>"
    have k1: "NamespacedNameOf ?g1 = req" using key by (simp add: NamespacedNameOf_def)
    have s1: "store w (NamespacedNameOf ?g1) = Some g" using stored k1 by simp
    from True have ok: "statusUpdateErr e = None" by simp
    have "snd (Guestbook_Reconcile e w req) =
         w\<lparr>store := (store w)(req \<mapsto>
               g\<lparr>Status_Conditions := SetStatusCondition (now e) (Status_Conditions g) ?c\<rparr>),
           writes := writes w @ [StatusUpdateCall req]\<rparr>"
      using True Inr k1
      by (simp add: Guestbook_Reconcile_def Let_def StatusUpdate_ok [OF ok s1])
    with stored show ?thesis by (rule status)
  next
    case False
    have "snd (Guestbook_Reconcile e w req) = w"
    proof (cases "needsAvailable g")
      case n: True
      with False obtain err where "statusUpdateErr e = Some err" by auto
      then show ?thesis
        using Inr n by (simp add: Guestbook_Reconcile_def Let_def StatusUpdate_fails)
    next
      case n: False
      then show ?thesis using Inr by (simp add: Guestbook_Reconcile_def)
    qed
    then show ?thesis by (rule same)
  qed
qed

lemma wf_worldOf:
  "\<forall>r'. store (worldOf r) (NamespacedNameOf r) = Some r' \<longrightarrow>
     NamespacedNameOf r' = NamespacedNameOf r"
  by (simp add: worldOf_def)

lemma Guestbook_created:
  "Guestbook_Reconcile envOK (worldOf created) demoKey =
     ((EmptyResult, None),
      (worldOf created)\<lparr>store := (store (worldOf created))(demoKey \<mapsto>
          created\<lparr>Status_Conditions :=
            [\<lparr>Type = ''Available'', Status = ConditionTrue, ObservedGeneration = 1,
              LastTransitionTime = 7, Reason = ''Reconciled'',
              Message = ''Guestbook spec reconciled''\<rparr>]\<rparr>),
        writes := [StatusUpdateCall demoKey]\<rparr>)"
proof -
  have n: "needsAvailable created" by (simp add: needsAvailable_def created_def)
  let ?g1 = "created\<lparr>Status_Conditions := SetStatusCondition (now envOK) (Status_Conditions created)
      \<lparr>Type = ''Available'', Status = ConditionTrue,
       ObservedGeneration = Generation created, LastTransitionTime = 0,
       Reason = ''Reconciled'', Message = ''Guestbook spec reconciled''\<rparr>\<rparr>"
  have k: "NamespacedNameOf ?g1 = NamespacedNameOf created" by (simp add: NamespacedNameOf_def)
  have s: "store (worldOf created) (NamespacedNameOf ?g1) = Some created"
    unfolding k by (rule store_worldOf)
  show ?thesis
    using n
    by (simp add: Guestbook_Reconcile_def Get_created Let_def
        StatusUpdate_ok [OF env_fields(3) s] k created_pre)
      (simp add: created_def envOK_def worldOf_def)
qed

lemma deleting_removed:
  "MyResource_ReconcileBody b envOK (worldOf deleting) demoKey =
     ((EmptyResult, None),
      (worldOf deleting)\<lparr>store := (store (worldOf deleting))(demoKey := None),
        writes := [UpdateCall demoKey],
        events := [(demoKey, EventTypeNormal, ''Deleted'', ''Resource cleanup completed'')]\<rparr>)"
proof -
  have f: "filter (\<lambda>g. g \<noteq> myFinalizerName) (Finalizers deleting) = []"
    by (simp add: deleting_def marked_def)
  have e: "writes (worldOf deleting) = []" "events (worldOf deleting) = []"
    by (simp_all add: worldOf_def)
  show ?thesis
    by (simp add: Reconcile_delete [OF Get_deleting(1) deleting_pre(1)]
        reconcileDelete_update_ok [OF deleting_pre(2) env_fields(2) store_worldOf deleting_pre(1)]
        f e deleting_pre(3))
qed

lemma shared_kept:
  "MyResource_ReconcileBody b envOK (worldOf shared) demoKey =
     ((EmptyResult, None),
      (worldOf shared)\<lparr>store := (store (worldOf shared))(demoKey \<mapsto>
          shared\<lparr>Finalizers := [''other.example.com/finalizer'']\<rparr>),
        writes := [UpdateCall demoKey],
        events := [(demoKey, EventTypeNormal, ''Deleted'', ''Resource cleanup completed'')]\<rparr>)"
proof -
  have k: "NamespacedNameOf shared = demoKey"
    by (simp add: shared_def example_defs)
  have z: "\<not> IsZero (DeletionTimestamp shared)"
    by (simp add: shared_def example_defs IsZero_def)
  have c: "ContainsFinalizer shared myFinalizerName"
    by (simp add: shared_def ContainsFinalizer_def)
  have g: "Get envOK (worldOf shared) demoKey = Inr shared"
    using store_worldOf [of shared] by (simp add: Get_Inr_iff env_fields k)
  have f: "filter (\<lambda>g. g \<noteq> myFinalizerName) (Finalizers shared)
      = [''other.example.com/finalizer'']"
    by (simp add: shared_def myFinalizerName_def)
  have e: "writes (worldOf shared) = []" "events (worldOf shared) = []"
    by (simp_all add: worldOf_def)
  show ?thesis
    by (simp add: Reconcile_delete [OF g z]
        reconcileDelete_update_ok [OF c env_fields(2) store_worldOf z]
        f e k RemoveFinalizer_def)
qed

text \<open>
  Claim C10. For every invocation of either controller on a store that holds the resource
  under its own name, no other object of the store is touched, and the invocation does one
  of four things. It writes nothing and leaves the store as it was. Or it makes one write
  through the update path that appends the finalizer marker, where it was absent, to the
  finalizer list of the stored resource and changes no other field. Or it makes one write
  through the update path that removes the marker, where it was present on a resource
  being deleted, from the finalizer list and changes no other field; when no finalizer is
  left, the store then drops the resource. Or it makes one write through the status path
  after which the stored resource differs from the one before in its status fields only.
  In no case is the spec of a stored resource modified.
\<close>

theorem reconcile_frame:
  assumes wf: "\<forall>r. store w req = Some r \<longrightarrow> NamespacedNameOf r = req"
    and w': "w' = snd (MyResource_ReconcileBody isReady e w req)
           \<or> w' = snd (Guestbook_Reconcile e w req)"
  shows "(\<forall>k. k \<noteq> req \<longrightarrow> store w' k = store w k)
       \<and> (writes w' = writes w \<and> store w' = store w
          \<or> writes w' = writes w @ [UpdateCall req]
             \<and> (\<exists>r. store w req = Some r
                  \<and> myFinalizerName \<notin> set (Finalizers r)
                  \<and> store w' req = Some (r\<lparr>Finalizers := Finalizers r @ [myFinalizerName]\<rparr>))
          \<or> writes w' = writes w @ [UpdateCall req]
             \<and> (\<exists>r. store w req = Some r
                  \<and> myFinalizerName \<in> set (Finalizers r)
                  \<and> \<not> IsZero (DeletionTimestamp r)
                  \<and> store w' req =
                       (if filter (\<lambda>g. g \<noteq> myFinalizerName) (Finalizers r) = [] then None
                        else Some (r\<lparr>Finalizers :=
                                     filter (\<lambda>g. g \<noteq> myFinalizerName) (Finalizers r)\<rparr>)))
          \<or> writes w' = writes w @ [StatusUpdateCall req]
             \<and> (\<exists>r cs n. store w req = Some r
                  \<and> store w' req =
                       Some (r\<lparr>Status_Conditions := cs, Status_ObservedGeneration := n\<rparr>)))"
proof -
  from w' consider (m) "w' = snd (MyResource_ReconcileBody isReady e w req)"
    | (g) "w' = snd (Guestbook_Reconcile e w req)" by blast
  then show ?thesis
  proof cases
    case m
    from wf show ?thesis
    proof (cases rule: MyResource_shape [where b = isReady and e = e])
      case same
      with m show ?thesis by simp
    next
      case (attach r)
      with m show ?thesis by simp
    next
      case (remove r ev)
      with m show ?thesis by simp
    next
      case (status r c ev)
      with m have "writes w' = writes w @ [StatusUpdateCall req]"
        and "store w' req = Some (r\<lparr>Status_Conditions :=
                SetStatusCondition (now e) (Status_Conditions r) c,
              Status_ObservedGeneration := Generation r\<rparr>)"
        and "\<forall>k. k \<noteq> req \<longrightarrow> store w' k = store w k"
        by simp_all
      with status(1) show ?thesis by blast
    qed
  next
    case g
    from wf show ?thesis
    proof (cases rule: Guestbook_shape [where e = e])
      case same
      with g show ?thesis by simp
    next
      case (status r c)
      with g have "writes w' = writes w @ [StatusUpdateCall req]"
        and "store w' req = Some (r\<lparr>Status_Conditions :=
                SetStatusCondition (now e) (Status_Conditions r) c,
              Status_ObservedGeneration := Status_ObservedGeneration r\<rparr>)"
        and "\<forall>k. k \<noteq> req \<longrightarrow> store w' k = store w k"
        by simp_all
      with status(1) show ?thesis by blast
    qed
  qed
qed

text \<open>
  The theorem on each path: \<^verbatim>\<open>MyResourceReconciler\<close> attaches the finalizer to a newly
  created resource, writes the status of a resource that carries the finalizer, removes
  the last finalizer of a resource being deleted, which the store then drops, and removes
  its own finalizer from a resource being deleted that another finalizer still holds;
  \<^verbatim>\<open>GuestbookReconciler\<close> writes the status of a newly created resource.
\<close>

theorem reconcile_frame_witness:
  "store (worldOf created) demoKey = Some created
   \<and> NamespacedNameOf created = demoKey
   \<and> store (snd (MyResource_ReconcileBody True envOK (worldOf created) demoKey)) demoKey
       = Some (created\<lparr>Finalizers := [myFinalizerName]\<rparr>)
   \<and> store (snd (MyResource_ReconcileBody True envOK (worldOf created) demoKey))
        (''default'', ''other'') = None
   \<and> writes (snd (MyResource_ReconcileBody True envOK (worldOf created) demoKey))
       = [UpdateCall demoKey]
   \<and> store (worldOf marked) demoKey = Some marked
   \<and> NamespacedNameOf marked = demoKey
   \<and> map_option Spec
        (store (snd (MyResource_ReconcileBody True envOK (worldOf marked) demoKey)) demoKey)
       = Some 3
   \<and> map_option Finalizers
        (store (snd (MyResource_ReconcileBody True envOK (worldOf marked) demoKey)) demoKey)
       = Some [myFinalizerName]
   \<and> writes (snd (MyResource_ReconcileBody True envOK (worldOf marked) demoKey))
       = [StatusUpdateCall demoKey]
   \<and> store (worldOf deleting) demoKey = Some deleting
   \<and> NamespacedNameOf deleting = demoKey
   \<and> store (snd (MyResource_ReconcileBody True envOK (worldOf deleting) demoKey)) demoKey
       = None
   \<and> writes (snd (MyResource_ReconcileBody True envOK (worldOf deleting) demoKey))
       = [UpdateCall demoKey]
   \<and> store (worldOf shared) demoKey = Some shared
   \<and> NamespacedNameOf shared = demoKey
   \<and> store (snd (MyResource_ReconcileBody True envOK (worldOf shared) demoKey)) demoKey
       = Some (shared\<lparr>Finalizers := [''other.example.com/finalizer'']\<rparr>)
   \<and> writes (snd (MyResource_ReconcileBody True envOK (worldOf shared) demoKey))
       = [UpdateCall demoKey]
   \<and> map_option Spec
        (store (snd (Guestbook_Reconcile envOK (worldOf created) demoKey)) demoKey)
       = Some 3
   \<and> map_option Finalizers
        (store (snd (Guestbook_Reconcile envOK (worldOf created) demoKey)) demoKey)
       = Some []
   \<and> writes (snd (Guestbook_Reconcile envOK (worldOf created) demoKey))
       = [StatusUpdateCall demoKey]"
proof -
  have ks: "NamespacedNameOf shared = demoKey"
    by (simp add: shared_def example_defs)
  have wfc: "\<forall>r. store (worldOf created) demoKey = Some r \<longrightarrow> NamespacedNameOf r = demoKey"
    using wf_worldOf [of created] by (simp add: created_pre)
  have wfm: "\<forall>r. store (worldOf marked) demoKey = Some r \<longrightarrow> NamespacedNameOf r = demoKey"
    using wf_worldOf [of marked] by (simp add: marked_pre)
  have wfd: "\<forall>r. store (worldOf deleting) demoKey = Some r \<longrightarrow> NamespacedNameOf r = demoKey"
    using wf_worldOf [of deleting] by (simp add: deleting_pre)
  have wfs: "\<forall>r. store (worldOf shared) demoKey = Some r \<longrightarrow> NamespacedNameOf r = demoKey"
    using wf_worldOf [of shared] by (simp add: ks)
  have sc: "store (worldOf created) demoKey = Some created"
    using store_worldOf [of created] by (simp add: created_pre)
  have sm: "store (worldOf marked) demoKey = Some marked"
    using store_worldOf [of marked] by (simp add: marked_pre)
  have sd: "store (worldOf deleting) demoKey = Some deleting"
    using store_worldOf [of deleting] by (simp add: deleting_pre)
  have ss: "store (worldOf shared) demoKey = Some shared"
    using store_worldOf [of shared] by (simp add: ks)
  have o: "store (worldOf created) (''default'', ''other'') = None"
    by (simp add: worldOf_def created_def NamespacedNameOf_def)
  have f: "Finalizers created = []" "writes (worldOf created) = []"
    "Spec created = 3" "Spec marked = 3" "Finalizers marked = [myFinalizerName]"
    "writes (worldOf marked) = []"
    by (simp_all add: created_def marked_def worldOf_def)
  have ne: "(''default'', ''other'') \<noteq> demoKey" by (simp add: demoKey_def)
  have a: "MyResource_ReconcileBody True envOK (worldOf created) demoKey =
      ((\<lparr>Requeue = True, RequeueAfter = 0\<rparr>, None),
       (worldOf created)\<lparr>store := (store (worldOf created))(demoKey \<mapsto>
           created\<lparr>Finalizers := Finalizers created @ [myFinalizerName]\<rparr>),
         writes := writes (worldOf created) @ [UpdateCall demoKey]\<rparr>)"
    by (rule attach_ok [OF Get_created(1) created_pre(3) created_pre(1) created_pre(2)
          env_fields(2)])
  have n: "snd (MyResource_ReconcileBody True envOK (worldOf marked) demoKey) =
      (worldOf marked)\<lparr>store := (store (worldOf marked))(demoKey \<mapsto>
           marked\<lparr>Status_Conditions := SetStatusCondition (now envOK) (Status_Conditions marked)
               \<lparr>Type = TypeReady, Status = ConditionTrue,
                ObservedGeneration = Generation marked, LastTransitionTime = 0,
                Reason = ''ReconciliationSucceeded'',
                Message = ''Resource reconciled successfully''\<rparr>,
             Status_ObservedGeneration := Generation marked\<rparr>),
         writes := writes (worldOf marked) @ [StatusUpdateCall demoKey],
         events := events (worldOf marked) @
           [(demoKey, EventTypeNormal, ''Ready'', ''Resource is ready'')]\<rparr>"
    using marked_pre(3)
    by (simp add: Reconcile_normal [OF Get_marked(1) marked_pre(1,2)]
        reconcileNormalBody_ok [OF env_fields(3) store_worldOf])
  from reconcile_frame [OF wfc, of "snd (MyResource_ReconcileBody True envOK (worldOf created) demoKey)"
      True envOK]
    reconcile_frame [OF wfm, of "snd (MyResource_ReconcileBody True envOK (worldOf marked) demoKey)"
      True envOK]
    reconcile_frame [OF wfd, of "snd (MyResource_ReconcileBody True envOK (worldOf deleting) demoKey)"
      True envOK]
    reconcile_frame [OF wfs, of "snd (MyResource_ReconcileBody True envOK (worldOf shared) demoKey)"
      True envOK]
    reconcile_frame [OF wfc, of "snd (Guestbook_Reconcile envOK (worldOf created) demoKey)"
      True envOK]
  show ?thesis
    by (simp add: sc sm sd ss o f a n ne ks deleting_removed shared_kept Guestbook_created
        created_pre marked_pre deleting_pre)
qed

section \<open>The steps of the two reconciliation loops\<close>

lemma Guestbook_result: "fst (fst (Guestbook_Reconcile e w req)) = EmptyResult"
  by (simp add: Guestbook_Reconcile_def Let_def split: sum.splits prod.splits option.splits)

lemma StatusUpdate_Finalizers:
  "map_option Finalizers (store (snd (StatusUpdate e w r)) k) = map_option Finalizers (store w k)"
  by (simp add: StatusUpdate_def split: option.splits)

lemma Guestbook_Finalizers:
  "map_option Finalizers (store (snd (Guestbook_Reconcile e w req)) k)
     = map_option Finalizers (store w k)"
proof (cases "Get e w req")
  case (Inl err)
  then show ?thesis by (simp add: Guestbook_Reconcile_def)
next
  case (Inr g)
  show ?thesis
  proof (cases "needsAvailable g")
    case True
    let ?g1 = "g\<lparr>Status_Conditions := SetStatusCondition (now e) (Status_Conditions g)
        \<lparr>Type = ''Available'', Status = ConditionTrue,
         ObservedGeneration = Generation g, LastTransitionTime = 0,
         Reason = ''Reconciled'', Message = ''Guestbook spec reconciled''\<rparr>\<rparr>"
    have "snd (Guestbook_Reconcile e w req) = snd (StatusUpdate e w ?g1)"
      using Inr True
      by (simp add: Guestbook_Reconcile_def Let_def split: prod.splits option.splits)
    then show ?thesis by (simp add: StatusUpdate_Finalizers)
  next
    case False
    then show ?thesis using Inr by (simp add: Guestbook_Reconcile_def)
  qed
qed


lemma Guestbook_status_ok:
  assumes "Get e w req = Inr g" "NamespacedNameOf g = req" "needsAvailable g"
    "statusUpdateErr e = None"
  shows "Guestbook_Reconcile e w req =
     ((EmptyResult, None),
      w\<lparr>store := (store w)(req \<mapsto>
            g\<lparr>Status_Conditions := SetStatusCondition (now e) (Status_Conditions g)
                \<lparr>Type = ''Available'', Status = ConditionTrue,
                 ObservedGeneration = Generation g, LastTransitionTime = 0,
                 Reason = ''Reconciled'', Message = ''Guestbook spec reconciled''\<rparr>\<rparr>),
        writes := writes w @ [StatusUpdateCall req]\<rparr>)"
proof -
  let ?g1 = "g\<lparr>Status_Conditions := SetStatusCondition (now e) (Status_Conditions g)
        \<lparr>Type = ''Available'', Status = ConditionTrue,
         ObservedGeneration = Generation g, LastTransitionTime = 0,
         Reason = ''Reconciled'', Message = ''Guestbook spec reconciled''\<rparr>\<rparr>"
  have k1: "NamespacedNameOf ?g1 = req" using assms(2) by (simp add: NamespacedNameOf_def)
  have s1: "store w (NamespacedNameOf ?g1) = Some g"
    using assms(1) k1 by (simp add: Get_Inr_iff)
  show ?thesis
    using assms(1,3) k1
    by (simp add: Guestbook_Reconcile_def Let_def StatusUpdate_ok [OF assms(4) s1])
qed


lemma Guestbook_settled:
  assumes "Get e w req = Inr g" "\<not> needsAvailable g"
  shows "Guestbook_Reconcile e w req = ((EmptyResult, None), w)"
  using assms by (simp add: Guestbook_Reconcile_def)

text \<open>
  Claim C3, as amended. \<^verbatim>\<open>MyResourceReconciler.Reconcile\<close> implements the scaffold
  sequence: it fetches the resource and does nothing else when the fetch fails; when the
  resource is not being deleted and lacks the finalizer it persists the finalizer and asks
  for an immediate requeue (the update succeeding); when the finalizer is there it
  reconciles, writes the status with a Ready condition and asks for a requeue after 5
  minutes (the status write succeeding). \<^verbatim>\<open>GuestbookReconciler.Reconcile\<close> fetches the
  resource and brings the Available condition of the persisted status up to the
  resource's generation (the status write succeeding); it never changes the finalizers of
  any stored object, and its result never asks for a requeue.
\<close>

theorem scaffold_steps:
  "fst (fst (Guestbook_Reconcile e w req)) = EmptyResult
   \<and> (\<forall>k. map_option Finalizers (store (snd (Guestbook_Reconcile e w req)) k)
            = map_option Finalizers (store w k))
   \<and> (Get e w req = Inr r \<and> NamespacedNameOf r = req \<and> statusUpdateErr e = None \<longrightarrow>
        (\<exists>p c. store (snd (Guestbook_Reconcile e w req)) req = Some p
             \<and> FindStatusCondition (Status_Conditions p) ''Available'' = Some c
             \<and> Status c = ConditionTrue \<and> ObservedGeneration c = Generation r))
   \<and> (Get e w req = Inl err \<longrightarrow> snd (MyResource_Reconcile e w req) = w)
   \<and> (Get e w req = Inr r \<and> NamespacedNameOf r = req \<and> IsZero (DeletionTimestamp r)
        \<and> \<not> ContainsFinalizer r myFinalizerName \<and> updateErr e = None \<longrightarrow>
        fst (MyResource_Reconcile e w req) = (\<lparr>Requeue = True, RequeueAfter = 0\<rparr>, None)
        \<and> (\<exists>p. store (snd (MyResource_Reconcile e w req)) req = Some p
               \<and> ContainsFinalizer p myFinalizerName))
   \<and> (Get e w req = Inr r \<and> NamespacedNameOf r = req \<and> IsZero (DeletionTimestamp r)
        \<and> ContainsFinalizer r myFinalizerName \<and> statusUpdateErr e = None \<longrightarrow>
        fst (MyResource_Reconcile e w req)
          = (\<lparr>Requeue = False, RequeueAfter = 5 * Minute\<rparr>, None)
        \<and> (\<exists>p c. store (snd (MyResource_Reconcile e w req)) req = Some p
               \<and> FindStatusCondition (Status_Conditions p) TypeReady = Some c
               \<and> Status c = ConditionTrue))"
proof (intro conjI allI impI)
  show "fst (fst (Guestbook_Reconcile e w req)) = EmptyResult"
    by (rule Guestbook_result)
  show "map_option Finalizers (store (snd (Guestbook_Reconcile e w req)) k)
            = map_option Finalizers (store w k)" for k
    by (rule Guestbook_Finalizers)
  show "\<exists>p c. store (snd (Guestbook_Reconcile e w req)) req = Some p
             \<and> FindStatusCondition (Status_Conditions p) ''Available'' = Some c
             \<and> Status c = ConditionTrue \<and> ObservedGeneration c = Generation r"
    if h: "Get e w req = Inr r \<and> NamespacedNameOf r = req \<and> statusUpdateErr e = None"
  proof (cases "needsAvailable r")
    case True
    let ?c = "\<lparr>Type = ''Available'', Status = ConditionTrue,
         ObservedGeneration = Generation r, LastTransitionTime = 0,
         Reason = ''Reconciled'', Message = ''Guestbook spec reconciled''\<rparr>"
    from h have g: "Get e w req = Inr r" and k: "NamespacedNameOf r = req"
      and ok: "statusUpdateErr e = None" by simp_all
    from Find_Set_fields [of "now e" "Status_Conditions r" ?c]
    show ?thesis
      by (auto simp: Guestbook_status_ok [OF g k True ok])
  next
    case False
    from h have g: "Get e w req = Inr r" by simp
    then have "store w req = Some r" by (simp add: Get_Inr_iff)
    with False show ?thesis
      by (auto simp: Guestbook_settled [OF g False] needsAvailable_def split: option.splits)
  qed
  show "snd (MyResource_Reconcile e w req) = w" if "Get e w req = Inl err"
    using that by (simp add: MyResource_Reconcile_def MyResource_ReconcileBody_def)
  {
    assume h: "Get e w req = Inr r \<and> NamespacedNameOf r = req \<and> IsZero (DeletionTimestamp r)
        \<and> \<not> ContainsFinalizer r myFinalizerName \<and> updateErr e = None"
    then have run: "MyResource_Reconcile e w req =
              ((\<lparr>Requeue = True, RequeueAfter = 0\<rparr>, None),
               w\<lparr>store := (store w)(req \<mapsto> r\<lparr>Finalizers := Finalizers r @ [myFinalizerName]\<rparr>),
                 writes := writes w @ [UpdateCall req]\<rparr>)"
      by (simp add: MyResource_Reconcile_def attach_ok)
    show "fst (MyResource_Reconcile e w req) = (\<lparr>Requeue = True, RequeueAfter = 0\<rparr>, None)"
      by (simp add: run)
    show "\<exists>p. store (snd (MyResource_Reconcile e w req)) req = Some p
               \<and> ContainsFinalizer p myFinalizerName"
      by (simp add: run ContainsFinalizer_def)
  }
  {
    assume h: "Get e w req = Inr r \<and> NamespacedNameOf r = req \<and> IsZero (DeletionTimestamp r)
        \<and> ContainsFinalizer r myFinalizerName \<and> statusUpdateErr e = None"
    then have g: "Get e w req = Inr r" and k: "NamespacedNameOf r = req"
      and z: "IsZero (DeletionTimestamp r)" and f: "ContainsFinalizer r myFinalizerName"
      and ok: "statusUpdateErr e = None" by simp_all
    have stored: "store w (NamespacedNameOf r) = Some r"
      using g k by (simp add: Get_Inr_iff)
    let ?c = "\<lparr>Type = TypeReady, Status = ConditionTrue,
               ObservedGeneration = Generation r, LastTransitionTime = 0,
               Reason = ''ReconciliationSucceeded'',
               Message = ''Resource reconciled successfully''\<rparr>"
    have run: "MyResource_Reconcile e w req = reconcileNormalBody True e w r"
      by (simp add: MyResource_Reconcile_def Reconcile_normal [OF g z f])
    show "fst (MyResource_Reconcile e w req)
          = (\<lparr>Requeue = False, RequeueAfter = 5 * Minute\<rparr>, None)"
      by (simp add: run reconcileNormalBody_ok [OF ok stored])
    from Find_Set_fields [of "now e" "Status_Conditions r" ?c]
    show "\<exists>p c. store (snd (MyResource_Reconcile e w req)) req = Some p
               \<and> FindStatusCondition (Status_Conditions p) TypeReady = Some c
               \<and> Status c = ConditionTrue"
      using k by (auto simp: run reconcileNormalBody_ok [OF ok stored])
  }
qed

text \<open>
  The theorem at a newly created resource, at a resource that carries the finalizer, and at
  a fetch that fails.
\<close>

theorem scaffold_steps_witness:
  "Get envOK (worldOf created) demoKey = Inr created
   \<and> NamespacedNameOf created = demoKey
   \<and> IsZero (DeletionTimestamp created)
   \<and> \<not> ContainsFinalizer created myFinalizerName
   \<and> updateErr envOK = None \<and> statusUpdateErr envOK = None
   \<and> (\<exists>p c. store (snd (Guestbook_Reconcile envOK (worldOf created) demoKey)) demoKey = Some p
          \<and> FindStatusCondition (Status_Conditions p) ''Available'' = Some c
          \<and> Status c = ConditionTrue \<and> ObservedGeneration c = Generation created)
   \<and> fst (MyResource_Reconcile envOK (worldOf created) demoKey)
       = (\<lparr>Requeue = True, RequeueAfter = 0\<rparr>, None)
   \<and> (\<exists>p. store (snd (MyResource_Reconcile envOK (worldOf created) demoKey)) demoKey = Some p
          \<and> ContainsFinalizer p myFinalizerName)
   \<and> Get envOK (worldOf marked) demoKey = Inr marked
   \<and> NamespacedNameOf marked = demoKey
   \<and> IsZero (DeletionTimestamp marked)
   \<and> ContainsFinalizer marked myFinalizerName
   \<and> fst (MyResource_Reconcile envOK (worldOf marked) demoKey)
       = (\<lparr>Requeue = False, RequeueAfter = 5 * Minute\<rparr>, None)
   \<and> (\<exists>p c. store (snd (MyResource_Reconcile envOK (worldOf marked) demoKey)) demoKey = Some p
          \<and> FindStatusCondition (Status_Conditions p) TypeReady = Some c
          \<and> Status c = ConditionTrue)
   \<and> Get envGetFails (worldOf marked) demoKey = Inl (Other ''timeout'')
   \<and> snd (MyResource_Reconcile envGetFails (worldOf marked) demoKey) = worldOf marked"
proof -
  have b: "Get envGetFails (worldOf marked) demoKey = Inl (Other ''timeout'')"
    by (simp add: Get_def env_fields)
  from scaffold_steps [of envOK "worldOf created" demoKey created]
    scaffold_steps [of envOK "worldOf marked" demoKey marked]
    scaffold_steps [of envGetFails "worldOf marked" demoKey marked "Other ''timeout''"]
    Get_created(1) created_pre Get_marked(1) marked_pre env_fields b
  show ?thesis by simp
qed

text \<open>
  Claim C3 as stated fails for \<^verbatim>\<open>GuestbookReconciler.Reconcile\<close>: on a resource that is
  found, is not being deleted and has no finalizer, it returns the empty result (no
  requeue) and the persisted resource still has no finalizer.
\<close>

theorem scaffold_steps_counterexample:
  "Get envOK (worldOf created) demoKey = Inr created
   \<and> IsZero (DeletionTimestamp created)
   \<and> \<not> ContainsFinalizer created myFinalizerName
   \<and> fst (Guestbook_Reconcile envOK (worldOf created) demoKey)
       = (\<lparr>Requeue = False, RequeueAfter = 0\<rparr>, None)
   \<and> map_option Finalizers
        (store (snd (Guestbook_Reconcile envOK (worldOf created) demoKey)) demoKey)
       = Some []"
  by (simp add: Get_created created_pre Guestbook_created EmptyResult_def)
    (simp add: created_def)

section \<open>Calling Reconcile twice\<close>













end
